theory Spec2Isabelle
  imports Complex_Main
begin

section \<open>Magnon band topology: Bloch Hamiltonian, Berry curvature, Chern number\<close>

text \<open>
  A shallow embedding of \<^verbatim>\<open>magnon_hamiltonian_sweep.py\<close>. Python floats are modelled as
  the real numbers and complex floats as the complex numbers, so every statement below is
  about the arithmetic the program writes down, not about its rounding. Numpy arrays of
  shape (2,) are pairs, arrays of shape (2,2) are pairs of rows.
\<close>

subsection \<open>Data model\<close>

type_synonym rvec2 = "real \<times> real"
type_synonym cvec2 = "complex \<times> complex"
type_synonym cmat2 = "cvec2 \<times> cvec2"

text \<open>
  What \<^verbatim>\<open>LA.eigh\<close> returns: the two eigenvalues in ascending order and the matrix whose
  columns are the eigenvectors. The routine belongs to numpy, not to the repository, so the
  functions that call it take it as a parameter.
\<close>

type_synonym band_solver = "cmat2 \<Rightarrow> (real \<times> real) \<times> cmat2"

text \<open>The exceptions the modelled code can raise.\<close>

datatype error = ValueError | ZeroDivisionError

text \<open>Module-level constants: \<^verbatim>\<open>J = 1.0\<close>, \<^verbatim>\<open>S = 1\<close>.\<close>

definition J :: real where
  "J = 1"

definition S :: real where
  "S = 1"

subsection \<open>Numpy primitives\<close>

text \<open>\<^verbatim>\<open>np.dot\<close> of two real arrays of length 2.\<close>

definition dot :: "rvec2 \<Rightarrow> rvec2 \<Rightarrow> real" where
  "dot u v = fst u * fst v + snd u * snd v"

text \<open>Elementwise difference of two arrays of length 2 (\<^verbatim>\<open>a1 - a2\<close>).\<close>

definition vsub :: "rvec2 \<Rightarrow> rvec2 \<Rightarrow> rvec2" where
  "vsub u v = (fst u - fst v, snd u - snd v)"

text \<open>\<^verbatim>\<open>np.vdot(a, b)\<close>: the first argument is conjugated.\<close>

definition vdot :: "cvec2 \<Rightarrow> cvec2 \<Rightarrow> complex" where
  "vdot a b = cnj (fst a) * fst b + cnj (snd a) * snd b"

text \<open>\<^verbatim>\<open>m[:, 0]\<close>: the first column of a 2x2 array.\<close>

definition col0 :: "cmat2 \<Rightarrow> cvec2" where
  "col0 m = (fst (fst m), fst (snd m))"

text \<open>
  \<^verbatim>\<open>np.log\<close> on a complex number: the principal branch, whose imaginary part is the
  principal argument. At zero numpy returns \<^verbatim>\<open>-inf + 0j\<close>; only the imaginary part is
  ever read by the program, and it is 0 there as \<^term>\<open>Arg 0\<close> is.
\<close>

definition np_log :: "complex \<Rightarrow> complex" where
  "np_log z = Complex (ln (cmod z)) (Arg z)"

text \<open>
  \<^verbatim>\<open>np.linspace(start, stop, num)\<close> with the default \<^verbatim>\<open>endpoint=True\<close>: a negative
  \<^verbatim>\<open>num\<close> raises ValueError, \<^verbatim>\<open>num = 0\<close> gives the empty array, \<^verbatim>\<open>num = 1\<close> gives
  \<^verbatim>\<open>[start]\<close>, and otherwise the step is \<^verbatim>\<open>(stop - start) / (num - 1)\<close>.
\<close>

definition linspace :: "real \<Rightarrow> real \<Rightarrow> int \<Rightarrow> error + real list" where
  "linspace start stop num =
     (if num < 0 then Inl ValueError
      else if num = 0 then Inr []
      else if num = 1 then Inr [start]
      else Inr (map (\<lambda>i. start + real i * ((stop - start) / real_of_int (num - 1)))
                    [0..<nat num]))"

subsection \<open>Bloch Hamiltonian\<close>

definition haldane_magnon_hamiltonian :: "real \<Rightarrow> real \<Rightarrow> real \<Rightarrow> real \<Rightarrow> cmat2" where
  "haldane_magnon_hamiltonian kx ky D Bz =
     (let t = J * S;
          t2 = D * S;
          a1 = (1, 0);
          a2 = (- (1/2), sqrt 3 / 2);
          a3 = (- (1/2), - sqrt 3 / 2);
          k_vec = (kx, ky);
          f_k = exp (\<i> * complex_of_real (dot k_vec a1))
              + exp (\<i> * complex_of_real (dot k_vec a2))
              + exp (\<i> * complex_of_real (dot k_vec a3));
          b1 = vsub a1 a2;
          b2 = vsub a2 a3;
          b3 = vsub a3 a1;
          g_k = sin (dot k_vec b1) + sin (dot k_vec b2) + sin (dot k_vec b3);
          h11 = Bz * S + 2 * t2 * g_k;
          h22 = Bz * S - 2 * t2 * g_k;
          h12 = complex_of_real t * f_k
      in ((complex_of_real h11, h12), (cnj h12, complex_of_real h22)))"

subsection \<open>Berry curvature of the lower band\<close>

text \<open>
  The band solver is the first argument. The last line of the function divides by
  \<^verbatim>\<open>dk**2\<close> in floating point: at \<^verbatim>\<open>dk = 0\<close> the program yields nan or an infinity (with a
  numpy warning, not an exception), which no real number stands for; what is stated about the
  value of \<open>berry_curvature\<close> is meant for \<open>dk \<noteq> 0\<close>. Within \<open>chern_number\<close> the spacing
  is never 0.
\<close>

definition berry_curvature ::
    "band_solver \<Rightarrow> real \<Rightarrow> real \<Rightarrow> real \<Rightarrow> real \<Rightarrow> real \<Rightarrow> real" where
  "berry_curvature eigh kx ky D Bz dk =
     (let vec0 = snd (eigh (haldane_magnon_hamiltonian kx ky D Bz));
          vec_x = snd (eigh (haldane_magnon_hamiltonian (kx + dk) ky D Bz));
          vec_y = snd (eigh (haldane_magnon_hamiltonian kx (ky + dk) D Bz));
          vec_xy = snd (eigh (haldane_magnon_hamiltonian (kx + dk) (ky + dk) D Bz));
          U1 = vdot (col0 vec0) (col0 vec_x);
          U2 = vdot (col0 vec_x) (col0 vec_xy);
          U3 = vdot (col0 vec_xy) (col0 vec_y);
          U4 = vdot (col0 vec_y) (col0 vec0);
          F = Im (np_log (U1 * U2 * U3 * U4)) / dk\<^sup>2
      in F)"

subsection \<open>Chern number\<close>

text \<open>
  \<^verbatim>\<open>xs[:-1]\<close> is \<^term>\<open>butlast xs\<close>. The division \<^verbatim>\<open>2 * np.pi / nk\<close> is a Python float
  divided by a Python int and raises ZeroDivisionError at \<^verbatim>\<open>nk = 0\<close>. The two nested
  \<^verbatim>\<open>for\<close> loops add to the accumulator \<^verbatim>\<open>chern\<close>, which starts at 0.
\<close>

definition chern_number :: "band_solver \<Rightarrow> real \<Rightarrow> real \<Rightarrow> int \<Rightarrow> error + real" where
  "chern_number eigh D Bz nk =
     (case linspace (- pi) pi nk of
        Inl e \<Rightarrow> Inl e
      | Inr kx_vals \<Rightarrow>
          (case linspace (- pi) pi nk of
             Inl e \<Rightarrow> Inl e
           | Inr ky_vals \<Rightarrow>
               if nk = 0 then Inl ZeroDivisionError
               else
                 let dk = 2 * pi / real_of_int nk;
                     chern = fold (\<lambda>kx acc.
                               fold (\<lambda>ky acc'. acc' + berry_curvature eigh kx ky D Bz dk * dk\<^sup>2)
                                    (butlast ky_vals) acc)
                             (butlast kx_vals) 0
                 in Inr (chern / (2 * pi))))"

subsection \<open>Parameter sweep\<close>

text \<open>
  The module-level sweep fills \<^verbatim>\<open>Chern_grid[i, j]\<close> with \<^verbatim>\<open>chern_number(D, Bz, nk=30)\<close>,
  row by row. The program fixes \<^verbatim>\<open>D_vals = np.linspace(-2, 2, 25)\<close> and
  \<^verbatim>\<open>Bz_vals = np.linspace(-1, 1, 25)\<close>; here the two arrays are arguments. An exception in
  any cell ends the sweep.
\<close>

fun sweep_row :: "band_solver \<Rightarrow> real \<Rightarrow> real list \<Rightarrow> error + real list" where
  "sweep_row eigh D [] = Inr []"
| "sweep_row eigh D (Bz # Bz_vals) =
     (case chern_number eigh D Bz 30 of
        Inl e \<Rightarrow> Inl e
      | Inr c \<Rightarrow> (case sweep_row eigh D Bz_vals of
                    Inl e \<Rightarrow> Inl e
                  | Inr cs \<Rightarrow> Inr (c # cs)))"

fun sweep :: "band_solver \<Rightarrow> real list \<Rightarrow> real list \<Rightarrow> error + real list list" where
  "sweep eigh [] Bz_vals = Inr []"
| "sweep eigh (D # D_vals) Bz_vals =
     (case sweep_row eigh D Bz_vals of
        Inl e \<Rightarrow> Inl e
      | Inr row \<Rightarrow> (case sweep eigh D_vals Bz_vals of
                      Inl e \<Rightarrow> Inl e
                    | Inr rows \<Rightarrow> Inr (row # rows)))"

definition Chern_grid :: "band_solver \<Rightarrow> error + real list list" where
  "Chern_grid eigh =
     (case linspace (- 2) 2 25 of
        Inl e \<Rightarrow> Inl e
      | Inr D_vals \<Rightarrow>
          (case linspace (- 1) 1 25 of
             Inl e \<Rightarrow> Inl e
           | Inr Bz_vals \<Rightarrow> sweep eigh D_vals Bz_vals))"

subsection \<open>A reference band solver\<close>

text \<open>
  Modelled from the spec: the Band Solver (\<^verbatim>\<open>numpy.linalg.eigh\<close> in the program, a
  library routine with no source in the repository). The specification allows a direct
  analytic formula for the 2x2 Hermitian problem: eigenvalues in ascending order, unit-norm
  eigenvectors as columns. Like \<^verbatim>\<open>eigh\<close> with its default \<^verbatim>\<open>UPLO='L'\<close> it reads the
  lower triangle only. The phase of each eigenvector is one choice among many.
\<close>

definition eigh_exact :: band_solver where
  "eigh_exact H =
     (let a = Re (fst (fst H));
          c = fst (snd H);
          d = Re (snd (snd H));
          m = (a + d) / 2;
          r = sqrt (((a - d) / 2)\<^sup>2 + (cmod c)\<^sup>2);
          w0 = m - r;
          w1 = m + r;
          x = (if c = 0 then (if a \<le> d then 1 else 0) else complex_of_real (w0 - d));
          y = (if c = 0 then (if a \<le> d then 0 else 1) else c);
          n = sqrt ((cmod x)\<^sup>2 + (cmod y)\<^sup>2);
          u0 = x / complex_of_real n;
          u1 = y / complex_of_real n
      in ((w0, w1), ((u0, - cnj u1), (u1, cnj u0))))"




subsection \<open>The Chern sum as the specification words it\<close>

text \<open>
  The specification's Chern Integrator, for comparison with \<^const>\<open>chern_number\<close>: an
  \<open>nk \<times> nk\<close> grid on \<open>[-\<pi>, \<pi>)\<^sup>2\<close> with step \<open>dk = 2\<pi>/nk\<close>, the curvature estimator
  called at every grid point with spacing \<open>dk\<close>, the terms \<open>curvature \<cdot> dk\<^sup>2\<close> summed and
  the sum divided by \<open>2\<pi>\<close>.
\<close>

definition chern_number_spec :: "band_solver \<Rightarrow> real \<Rightarrow> real \<Rightarrow> int \<Rightarrow> real" where
  "chern_number_spec eigh D Bz nk =
     (let dk = 2 * pi / real_of_int nk
      in (\<Sum>i<nat nk. \<Sum>j<nat nk.
            berry_curvature eigh (- pi + real i * dk) (- pi + real j * dk) D Bz dk * dk\<^sup>2)
         / (2 * pi))"

section \<open>Auxiliary facts\<close>

subsection \<open>Numpy primitives\<close>

lemma exp_i_cis: "exp (\<i> * complex_of_real x) = cis x"
  by (simp add: cis_conv_exp)


lemma Im_np_log: "Im (np_log z) = Arg z"
  by (simp add: np_log_def)

lemma linspace_two: "linspace (- pi) pi 2 = Inr [- pi, pi]"
  by (simp add: linspace_def upt_conv_Cons)

lemma linspace_grid:
  assumes "2 \<le> nk"
  shows "linspace (- pi) pi nk
           = Inr (map (\<lambda>i. - pi + real i * (2 * pi / real_of_int (nk - 1))) [0..<nat nk])"
  using assms by (simp add: linspace_def)




subsection \<open>Loops as sums\<close>

lemma fold_add_sum_list:
  "fold (\<lambda>x acc. acc + g x) xs (a::real) = a + sum_list (map g xs)"
  by (induction xs arbitrary: a) simp_all

lemma fold_fold_add:
  "fold (\<lambda>x acc. fold (\<lambda>y acc'. acc' + g x y) ys acc) xs (a::real)
     = a + sum_list (map (\<lambda>x. sum_list (map (g x) ys)) xs)"
  by (induction xs arbitrary: a) (simp_all add: fold_add_sum_list)

lemma butlast_map_upt: "butlast (map f [0..<n]) = map f [0..<n - 1]"
  by (cases n) (simp_all add: map_butlast [symmetric])

lemma sum_list_map_upt: "sum_list (map f [0..<n]) = (\<Sum>i<n. (f i :: real))"
  by (simp add: sum_list_distinct_conv_sum_set atLeast0LessThan
                interv_sum_list_conv_sum_set_nat)

subsection \<open>The reference band solver meets the Band Solver contract\<close>

lemma eigh_exact_ordered: "fst (fst (eigh_exact H)) \<le> snd (fst (eigh_exact H))"
  by (simp add: eigh_exact_def Let_def)

lemma unit_normalise:
  assumes "x \<noteq> 0 \<or> y \<noteq> 0"
  shows "(cmod (x / complex_of_real (sqrt ((cmod x)\<^sup>2 + (cmod y)\<^sup>2))))\<^sup>2
       + (cmod (y / complex_of_real (sqrt ((cmod x)\<^sup>2 + (cmod y)\<^sup>2))))\<^sup>2 = 1"
proof -
  let ?s = "(cmod x)\<^sup>2 + (cmod y)\<^sup>2"
  from assms have pos: "0 < ?s"
    by (metis add_pos_nonneg add_nonneg_pos zero_less_power2 zero_le_power2 norm_eq_zero)
  have ex: "(cmod (x / complex_of_real (sqrt ?s)))\<^sup>2 = (cmod x)\<^sup>2 / ?s"
    using pos by (simp add: norm_divide power_divide)
  have ey: "(cmod (y / complex_of_real (sqrt ?s)))\<^sup>2 = (cmod y)\<^sup>2 / ?s"
    using pos by (simp add: norm_divide power_divide)
  have "(cmod (x / complex_of_real (sqrt ?s)))\<^sup>2 + (cmod (y / complex_of_real (sqrt ?s)))\<^sup>2
          = (cmod x)\<^sup>2 / ?s + (cmod y)\<^sup>2 / ?s"
    by (simp only: ex ey)
  also have "\<dots> = ?s / ?s"
    by (rule add_divide_distrib [symmetric])
  also have "\<dots> = 1"
  proof (rule divide_self)
    show "?s \<noteq> 0" using pos by (rule less_imp_neq [THEN not_sym])
  qed
  finally show ?thesis .
qed

lemma eigh_exact_unit:
  "(cmod (fst (col0 (snd (eigh_exact H)))))\<^sup>2 + (cmod (snd (col0 (snd (eigh_exact H)))))\<^sup>2 = 1"
proof (cases "fst (snd H) = 0")
  case True
  then show ?thesis
    by (simp add: eigh_exact_def Let_def col0_def)
next
  case False
  show ?thesis
    by (simp only: eigh_exact_def Let_def col0_def fst_conv snd_conv False if_False
                   unit_normalise [OF disjI2, OF False])
qed

lemma eigh_exact_eigenvector:
  assumes H: "H = ((complex_of_real a, cnj c), (c, complex_of_real d))"
  shows "fst (fst H) * fst (col0 (snd (eigh_exact H)))
           + snd (fst H) * snd (col0 (snd (eigh_exact H)))
           = complex_of_real (fst (fst (eigh_exact H))) * fst (col0 (snd (eigh_exact H)))
       \<and> fst (snd H) * fst (col0 (snd (eigh_exact H)))
           + snd (snd H) * snd (col0 (snd (eigh_exact H)))
           = complex_of_real (fst (fst (eigh_exact H))) * snd (col0 (snd (eigh_exact H)))"
proof (cases "c = 0")
  case True
  have r: "sqrt (((a - d) / 2)\<^sup>2 + (cmod c)\<^sup>2) = \<bar>a - d\<bar> / 2"
    using True by simp
  show ?thesis
  proof (cases "a \<le> d")
    case le: True
    then have "(a + d) / 2 - \<bar>a - d\<bar> / 2 = a" by (simp add: field_simps)
    with True le show ?thesis
      by (simp add: H eigh_exact_def Let_def col0_def)
  next
    case gt: False
    then have "(a + d) / 2 - \<bar>a - d\<bar> / 2 = d" by (simp add: field_simps)
    with True gt show ?thesis
      by (simp add: H eigh_exact_def Let_def col0_def)
  qed
next
  case False
  define r where "r = sqrt (((a - d) / 2)\<^sup>2 + (cmod c)\<^sup>2)"
  define w0 where "w0 = (a + d) / 2 - r"
  define n where "n = sqrt ((cmod (complex_of_real (w0 - d)))\<^sup>2 + (cmod c)\<^sup>2)"
  have r2: "r\<^sup>2 = ((a - d) / 2)\<^sup>2 + (cmod c)\<^sup>2"
    by (simp add: r_def)
  have char: "(w0 - a) * (w0 - d) = (cmod c)\<^sup>2"
  proof -
    have "(w0 - a) * (w0 - d) = r\<^sup>2 - ((a - d) / 2)\<^sup>2"
      by (simp add: w0_def power2_eq_square field_simps)
    then show ?thesis by (simp add: r2)
  qed
  have cc: "cnj c * c = complex_of_real ((cmod c)\<^sup>2)"
    using complex_norm_square [of c] by (simp only: mult.commute)
  have row1: "complex_of_real a * (complex_of_real (w0 - d)) + cnj c * c
                = complex_of_real w0 * complex_of_real (w0 - d)"
  proof -
    have "a * (w0 - d) + (cmod c)\<^sup>2 = w0 * (w0 - d)"
      using char by (simp add: algebra_simps)
    then have "complex_of_real (a * (w0 - d) + (cmod c)\<^sup>2) = complex_of_real (w0 * (w0 - d))"
      by simp
    then show ?thesis
      unfolding cc by (simp only: of_real_add of_real_mult)
  qed
  have row2: "c * complex_of_real (w0 - d) + complex_of_real d * c = complex_of_real w0 * c"
    by (simp add: algebra_simps)
  have e: "eigh_exact H = ((w0, (a + d) / 2 + r),
             ((complex_of_real (w0 - d) / complex_of_real n, - cnj (c / complex_of_real n)),
              (c / complex_of_real n, cnj (complex_of_real (w0 - d) / complex_of_real n))))"
    using False unfolding H eigh_exact_def Let_def n_def w0_def r_def
    by (simp del: of_real_diff of_real_add)
  have d1: "complex_of_real a * (complex_of_real (w0 - d) / complex_of_real n)
              + cnj c * (c / complex_of_real n)
              = (complex_of_real a * (complex_of_real (w0 - d)) + cnj c * c) / complex_of_real n"
    by (simp add: add_divide_distrib)
  have d2: "c * (complex_of_real (w0 - d) / complex_of_real n)
              + complex_of_real d * (c / complex_of_real n)
              = (c * complex_of_real (w0 - d) + complex_of_real d * c) / complex_of_real n"
    by (simp add: add_divide_distrib)
  show ?thesis
    unfolding e
    unfolding H col0_def fst_conv snd_conv d1 d2 row1 row2
    by simp
qed

subsection \<open>The Chern integrator on small and on regular grids\<close>

lemma chern_number_one: "chern_number eigh D Bz 1 = Inr 0"
  by (simp add: chern_number_def linspace_def)

lemma chern_number_zero: "chern_number eigh D Bz 0 = Inl ZeroDivisionError"
  by (simp add: chern_number_def linspace_def)

lemma chern_number_negative: "nk < 0 \<Longrightarrow> chern_number eigh D Bz nk = Inl ValueError"
  by (simp add: chern_number_def linspace_def)

text \<open>
  What the two loops of \<^const>\<open>chern_number\<close> add up for \<open>nk \<ge> 2\<close>: one term for each of the
  \<open>(nk - 1)\<^sup>2\<close> points \<open>- \<pi> + i \<cdot> 2\<pi>/(nk - 1)\<close>, each with plaquette spacing \<open>2\<pi>/nk\<close>.
\<close>

lemma chern_number_grid:
  assumes "2 \<le> nk"
  shows "chern_number eigh D Bz nk =
           Inr ((\<Sum>i<nat nk - 1. \<Sum>j<nat nk - 1.
                   berry_curvature eigh (- pi + real i * (2 * pi / real_of_int (nk - 1)))
                                        (- pi + real j * (2 * pi / real_of_int (nk - 1)))
                                        D Bz (2 * pi / real_of_int nk)
                   * (2 * pi / real_of_int nk)\<^sup>2) / (2 * pi))"
proof -
  from assms have "nk \<noteq> 0" by simp
  then show ?thesis
    by (simp add: chern_number_def linspace_grid [OF assms] Let_def fold_fold_add
                  butlast_map_upt sum_list_map_upt o_def)
qed

lemma chern_number_returns:
  assumes "1 \<le> nk"
  shows "\<exists>c. chern_number eigh D Bz nk = Inr c"
proof (cases "nk = 1")
  case True
  then show ?thesis by (simp add: chern_number_one)
next
  case False
  with assms have "2 \<le> nk" by simp
  then show ?thesis by (simp add: chern_number_grid)
qed

subsection \<open>The sweep always returns a full grid\<close>

lemma sweep_row_returns:
  "\<exists>row. sweep_row eigh D Bz_vals = Inr row \<and> length row = length Bz_vals"
proof (induction Bz_vals)
  case Nil
  show ?case by simp
next
  case (Cons Bz Bz_vals)
  obtain c where "chern_number eigh D Bz 30 = Inr c"
    using chern_number_returns [of 30 eigh D Bz] by auto
  with Cons show ?case by auto
qed

lemma sweep_returns:
  "\<exists>grid. sweep eigh D_vals Bz_vals = Inr grid \<and> length grid = length D_vals
          \<and> (\<forall>row \<in> set grid. length row = length Bz_vals)"
proof (induction D_vals)
  case Nil
  show ?case by simp
next
  case (Cons D D_vals)
  obtain row where "sweep_row eigh D Bz_vals = Inr row" and "length row = length Bz_vals"
    using sweep_row_returns [of eigh D Bz_vals] by auto
  with Cons show ?case by auto
qed

text \<open>The program's own sweep: 25 rows of 25 Chern numbers, and no exception.\<close>

lemma Chern_grid_returns:
  "\<exists>grid. Chern_grid eigh = Inr grid \<and> length grid = 25
          \<and> (\<forall>row \<in> set grid. length row = 25)"
proof -
  obtain Ds where Ds: "linspace (- 2) 2 25 = Inr Ds" and lD: "length Ds = 25"
    by (simp add: linspace_def)
  obtain Bs where Bs: "linspace (- 1) 1 25 = Inr Bs" and lB: "length Bs = 25"
    by (simp add: linspace_def)
  show ?thesis
    using sweep_returns [of eigh Ds Bs] by (simp add: Chern_grid_def Ds Bs lD lB)
qed

lemma sweep_row_empty: "sweep_row eigh D [] = Inr []"
  by simp


subsection \<open>Phases cancel around a closed loop\<close>



subsection \<open>The Dzyaloshinskii-Moriya term: vanishing, and under a change of sign\<close>

lemma haldane_D_zero_diagonal:
  "fst (fst (haldane_magnon_hamiltonian kx ky 0 Bz)) = complex_of_real (Bz * S)
   \<and> snd (snd (haldane_magnon_hamiltonian kx ky 0 Bz)) = complex_of_real (Bz * S)"
  by (simp add: haldane_magnon_hamiltonian_def Let_def)

text \<open>
  Without Zeeman field, changing the sign of \<open>D\<close> exchanges the two diagonal entries and
  leaves the off-diagonal entries as they are.
\<close>

lemma haldane_D_sign_flip:
  "fst (fst (haldane_magnon_hamiltonian kx ky (- D) 0))
     = snd (snd (haldane_magnon_hamiltonian kx ky D 0))
   \<and> snd (snd (haldane_magnon_hamiltonian kx ky (- D) 0))
     = fst (fst (haldane_magnon_hamiltonian kx ky D 0))
   \<and> snd (fst (haldane_magnon_hamiltonian kx ky (- D) 0))
     = snd (fst (haldane_magnon_hamiltonian kx ky D 0))
   \<and> fst (snd (haldane_magnon_hamiltonian kx ky (- D) 0))
     = fst (snd (haldane_magnon_hamiltonian kx ky D 0))"
  by (simp add: haldane_magnon_hamiltonian_def Let_def)

section \<open>The claims\<close>

subsection \<open>Chern Integrator\<close>

text \<open>
  C1. The Chern Integrator is described as sampling an \<open>nk \<times> nk\<close> grid on \<open>[-\<pi>, \<pi>)\<^sup>2\<close> with
  step \<open>dk = 2\<pi>/nk\<close>. At \<open>nk = 2\<close> that grid is \<open>{-\<pi>, 0}\<^sup>2\<close>, four plaquettes of side \<open>\<pi>\<close> that
  tile the zone, and \<^const>\<open>chern_number_spec\<close> adds four terms. The program's
  \<^verbatim>\<open>np.linspace(-np.pi, np.pi, nk)[:-1]\<close> holds \<open>nk - 1\<close> points at distance \<open>2\<pi>/(nk - 1)\<close>:
  at \<open>nk = 2\<close> the loops run once, at \<open>(-\<pi>, -\<pi>)\<close>, and \<^const>\<open>chern_number\<close> returns that single
  term, whatever the band solver and the parameters.
\<close>

theorem chern_number_two_single_sample:
  "chern_number eigh D Bz 2
     = Inr (berry_curvature eigh (- pi) (- pi) D Bz pi * pi\<^sup>2 / (2 * pi))
   \<and> chern_number_spec eigh D Bz 2
     = (berry_curvature eigh (- pi) (- pi) D Bz pi * pi\<^sup>2
        + berry_curvature eigh (- pi) 0 D Bz pi * pi\<^sup>2
        + berry_curvature eigh 0 (- pi) D Bz pi * pi\<^sup>2
        + berry_curvature eigh 0 0 D Bz pi * pi\<^sup>2) / (2 * pi)"
proof
  show "chern_number eigh D Bz 2
          = Inr (berry_curvature eigh (- pi) (- pi) D Bz pi * pi\<^sup>2 / (2 * pi))"
    by (simp add: chern_number_def linspace_two)
next
  have two: "{..<nat 2} = {0, Suc 0}"
    by auto
  show "chern_number_spec eigh D Bz 2
          = (berry_curvature eigh (- pi) (- pi) D Bz pi * pi\<^sup>2
             + berry_curvature eigh (- pi) 0 D Bz pi * pi\<^sup>2
             + berry_curvature eigh 0 (- pi) D Bz pi * pi\<^sup>2
             + berry_curvature eigh 0 0 D Bz pi * pi\<^sup>2) / (2 * pi)"
    unfolding chern_number_spec_def Let_def two
    by simp
qed

text \<open>
  C2. The grid resolution \<open>nk = 1\<close> is said to be rejected with an InvalidConfiguration
  error. The program has no such check: at \<open>nk = 1\<close> both loops are empty and the result is
  0; at \<open>nk = 0\<close> the division \<open>2\<pi>/nk\<close> raises ZeroDivisionError, and a negative \<open>nk\<close> makes
  \<^verbatim>\<open>np.linspace\<close> raise ValueError. In none of the three cases is the band solver called.
\<close>

theorem chern_number_below_two:
  "chern_number eigh D Bz 1 = Inr 0
   \<and> chern_number eigh D Bz 0 = Inl ZeroDivisionError
   \<and> (nk < 0 \<longrightarrow> chern_number eigh D Bz nk = Inl ValueError)"
  by (simp add: chern_number_one chern_number_zero chern_number_negative)

theorem chern_number_below_two_witness:
  "(- 1 :: int) < 0 \<and> chern_number eigh_exact (1/2) 0 (- 1) = Inl ValueError"
  using chern_number_below_two [of eigh_exact "1/2" 0 "- 1"] by simp

theorem chern_number_one_counterexample:
  "chern_number eigh_exact (1/2) 0 1 = Inr 0 \<and> \<not> isl (chern_number eigh_exact (1/2) 0 1)"
  by (simp add: chern_number_one)

subsection \<open>Berry Curvature Estimator\<close>





text \<open>
  C10. For a spacing \<open>dk > 0\<close> the curvature estimate is a real number of magnitude at most
  \<open>\<pi>/dk\<^sup>2\<close>, whatever the band solver returns: it is a principal argument divided by \<open>dk\<^sup>2\<close>.
\<close>

theorem berry_curvature_bounded:
  assumes "0 < dk"
  shows "\<bar>berry_curvature eigh kx ky D Bz dk\<bar> \<le> pi / dk\<^sup>2"
proof -
  have "\<bar>Arg z\<bar> \<le> pi" for z
    using Arg_bounded [of z] by linarith
  then show ?thesis
    using assms by (simp add: berry_curvature_def Let_def Im_np_log divide_right_mono)
qed

theorem berry_curvature_bounded_witness:
  "(0::real) < 1 \<and> \<bar>berry_curvature eigh_exact 0 0 (1/2) 0 1\<bar> \<le> pi"
  using berry_curvature_bounded [of 1 eigh_exact 0 0 "1/2" 0] by simp

subsection \<open>Bloch Hamiltonian Builder\<close>

text \<open>
  C5. The entries of the Bloch Hamiltonian. With \<open>t = J S\<close> and \<open>t2 = D S\<close>, the diagonal
  entries are \<open>Bz S + 2 t2 g(k)\<close> and \<open>Bz S - 2 t2 g(k)\<close>, where \<open>g(k)\<close> is the sum of the sines
  of \<open>k \<cdot> b\<close> over the three next-nearest-neighbour vectors \<open>b = (3/2, -\<surd>3/2)\<close>, \<open>(0, \<surd>3)\<close>,
  \<open>(-3/2, -\<surd>3/2)\<close>; the upper off-diagonal entry is \<open>t f(k)\<close>, where \<open>f(k)\<close> is the sum of the
  phase factors \<open>exp (i k \<cdot> a)\<close> over the three nearest-neighbour vectors \<open>a = (1, 0)\<close>,
  \<open>(-1/2, \<surd>3/2)\<close>, \<open>(-1/2, -\<surd>3/2)\<close>; the lower off-diagonal entry is its conjugate.
\<close>

theorem haldane_magnon_hamiltonian_entries:
  "haldane_magnon_hamiltonian kx ky D Bz =
     ((complex_of_real (Bz * S + 2 * (D * S) *
          (sin (3/2 * kx - sqrt 3 / 2 * ky) + sin (sqrt 3 * ky)
           + sin (- (3/2) * kx - sqrt 3 / 2 * ky))),
       complex_of_real (J * S) *
          (cis kx + cis (- (1/2) * kx + sqrt 3 / 2 * ky) + cis (- (1/2) * kx - sqrt 3 / 2 * ky))),
      (cnj (complex_of_real (J * S) *
          (cis kx + cis (- (1/2) * kx + sqrt 3 / 2 * ky) + cis (- (1/2) * kx - sqrt 3 / 2 * ky))),
       complex_of_real (Bz * S - 2 * (D * S) *
          (sin (3/2 * kx - sqrt 3 / 2 * ky) + sin (sqrt 3 * ky)
           + sin (- (3/2) * kx - sqrt 3 / 2 * ky)))))"
proof -
  have b1: "dot (kx, ky) (vsub (1, 0) (- (1/2), sqrt 3 / 2)) = 3/2 * kx - sqrt 3 / 2 * ky"
    by (simp add: dot_def vsub_def algebra_simps)
  have b2: "dot (kx, ky) (vsub (- (1/2), sqrt 3 / 2) (- (1/2), - sqrt 3 / 2)) = sqrt 3 * ky"
    by (simp add: dot_def vsub_def algebra_simps)
  have b3: "dot (kx, ky) (vsub (- (1/2), - sqrt 3 / 2) (1, 0))
              = - (3/2) * kx - sqrt 3 / 2 * ky"
    by (simp add: dot_def vsub_def algebra_simps)
  have a1: "dot (kx, ky) (1, 0) = kx"
    by (simp add: dot_def)
  have a2: "dot (kx, ky) (- (1/2), sqrt 3 / 2) = - (1/2) * kx + sqrt 3 / 2 * ky"
    by (simp add: dot_def algebra_simps)
  have a3: "dot (kx, ky) (- (1/2), - sqrt 3 / 2) = - (1/2) * kx - sqrt 3 / 2 * ky"
    by (simp add: dot_def algebra_simps)
  show ?thesis
    unfolding haldane_magnon_hamiltonian_def Let_def b1 b2 b3 a1 a2 a3 exp_i_cis
    by (rule refl)
qed

text \<open>
  C6. The Bloch Hamiltonian is Hermitian at every wavevector and for all parameters: the
  two off-diagonal entries are conjugates of each other and the diagonal entries are real.
\<close>

theorem haldane_magnon_hamiltonian_hermitian:
  "snd (fst (haldane_magnon_hamiltonian kx ky D Bz))
     = cnj (fst (snd (haldane_magnon_hamiltonian kx ky D Bz)))
   \<and> Im (fst (fst (haldane_magnon_hamiltonian kx ky D Bz))) = 0
   \<and> Im (snd (snd (haldane_magnon_hamiltonian kx ky D Bz))) = 0"
  by (simp add: haldane_magnon_hamiltonian_def Let_def)

subsection \<open>Phase Diagram Scanner\<close>



end
